theory Spec2Isabelle
  imports Main "HOL-Library.Char_ord" "HOL-Library.List_Lexorder"
begin

section \<open>The file system\<close>

text \<open>
  Task2.py works on the file system only: it deletes, lists, writes and archives.
  The file system is a tree from the root directory. A directory is the list of its
  entries in the order in which the host lists them (the order \<^verbatim>\<open>iterdir\<close> returns), a
  regular file carries its content. There are no symbolic links and no permissions in
  this model. A file written by \<^verbatim>\<open>json.dump\<close> is text; the file written by
  \<^verbatim>\<open>shutil.make_archive\<close> is a zip archive, kept as the list of its members in the
  order in which they were added: the member name, and the data of a file member
  (a directory member has none and its name ends with a slash).
\<close>

datatype content = Text string | Zip "(string \<times> content option) list"

datatype node = File content | Dir "(string \<times> node) list"

text \<open>The node at an absolute path, given as the list of its names from the root.\<close>

primrec lookup :: "string list \<Rightarrow> node \<Rightarrow> node option" where
  "lookup [] n = Some n"
| "lookup (s # ss) n =
     (case n of
        File c \<Rightarrow> None
      | Dir es \<Rightarrow> (case map_of es s of None \<Rightarrow> None | Some m \<Rightarrow> lookup ss m))"

datatype build_msg = CommandFailed string | SourceNotFound string

datatype exn =
    BuildScriptError build_msg
  | FileNotFoundError
  | NotADirectoryError
  | IsADirectoryError
  | IndexError
  | OSError

text \<open>
  What the host does with the names of a path, from a directory \<open>cur\<close>: every name but
  the last is looked up in a directory, and \<^verbatim>\<open>..\<close> is the parent (the root is its own
  parent). The result is the absolute path of what the names lead to, or the error of
  the system call: a missing name, or a regular file where a directory is needed.
\<close>

primrec walk :: "node \<Rightarrow> string list \<Rightarrow> string list \<Rightarrow> exn + string list" where
  "walk r [] cur = (if lookup cur r = None then Inl FileNotFoundError else Inr cur)"
| "walk r (s # ss) cur =
     (case lookup cur r of
        None \<Rightarrow> Inl FileNotFoundError
      | Some (File c) \<Rightarrow> Inl NotADirectoryError
      | Some (Dir es) \<Rightarrow>
          (if s = ''..'' then walk r ss (butlast cur)
           else if map_of es s = None then Inl FileNotFoundError
           else walk r ss (cur @ [s])))"

text \<open>Deleting the entry at an absolute path, with all that is below it.\<close>

primrec remove :: "string list \<Rightarrow> node \<Rightarrow> node" where
  "remove [] n = n"
| "remove (s # ss) n =
     (case n of
        File c \<Rightarrow> File c
      | Dir es \<Rightarrow>
          Dir (if ss = [] then filter (\<lambda>e. fst e \<noteq> s) es
               else map (\<lambda>e. if fst e = s then (s, remove ss (snd e)) else e) es))"

text \<open>
  Creating or replacing the entry at an absolute path. A new entry comes last in the
  listing of its directory; a replaced one keeps its place.
\<close>

definition upsert :: "string \<Rightarrow> node \<Rightarrow> (string \<times> node) list \<Rightarrow> (string \<times> node) list" where
  "upsert s new es =
     (if map_of es s = None then es @ [(s, new)]
      else map (\<lambda>e. if fst e = s then (s, new) else e) es)"

primrec put :: "string list \<Rightarrow> node \<Rightarrow> node \<Rightarrow> node" where
  "put [] new n = n"
| "put (s # ss) new n =
     (case n of
        File c \<Rightarrow> File c
      | Dir es \<Rightarrow>
          Dir (if ss = [] then upsert s new es
               else map (\<lambda>e. if fst e = s then (s, put ss new (snd e)) else e) es))"

text \<open>
  A well-formed tree has no two entries of one name in a directory, and every name is one
  that the host allows: not empty, not \<^verbatim>\<open>.\<close> or \<^verbatim>\<open>..\<close>, and without a slash.
\<close>

definition valid_name :: "string \<Rightarrow> bool" where
  "valid_name s = (s \<noteq> [] \<and> s \<noteq> ''.'' \<and> s \<noteq> ''..'' \<and> CHR ''/'' \<notin> set s)"


section \<open>Paths\<close>

text \<open>
  A \<^verbatim>\<open>pathlib.Path\<close> on a POSIX host: the root (\<^verbatim>\<open>/\<close>, \<^verbatim>\<open>//\<close> or empty for a relative
  path) and the names. Parsing a string splits it at the slashes and drops the empty
  names and the names \<^verbatim>\<open>.\<close>; two paths are equal when root and names are.
\<close>

record ppath =
  anchor :: string
  names :: "string list"

fun split_sep :: "char \<Rightarrow> string \<Rightarrow> string list" where
  "split_sep sep [] = [[]]"
| "split_sep sep (c # cs) =
     (if c = sep then [] # split_sep sep cs
      else (case split_sep sep cs of [] \<Rightarrow> [[c]] | x # xs \<Rightarrow> (c # x) # xs))"

definition splitroot :: "string \<Rightarrow> string \<times> string" where
  "splitroot p =
     (if take 1 p \<noteq> ''/'' then ('''', p)
      else if take 1 (drop 1 p) \<noteq> ''/'' \<or> take 1 (drop 2 p) = ''/'' then (''/'', drop 1 p)
      else (''//'', drop 2 p))"

definition Path :: "string \<Rightarrow> ppath" where
  "Path s =
     (case splitroot s of
        (r, rel) \<Rightarrow>
          \<lparr>anchor = r, names = filter (\<lambda>x. x \<noteq> [] \<and> x \<noteq> ''.'') (split_sep (CHR ''/'') rel)\<rparr>)"

text \<open>The operator \<^verbatim>\<open>/\<close>: an absolute right operand replaces the left one.\<close>

definition joinpath :: "ppath \<Rightarrow> ppath \<Rightarrow> ppath" where
  "joinpath p q = (if anchor q \<noteq> [] then q else \<lparr>anchor = anchor p, names = names p @ names q\<rparr>)"

definition parts :: "ppath \<Rightarrow> string list" where
  "parts p = (if anchor p \<noteq> [] then anchor p # names p else names p)"

definition name :: "ppath \<Rightarrow> string" where
  "name p = (if names p = [] then [] else last (names p))"

text \<open>
  \<^verbatim>\<open>Path.suffix\<close>: the name from its last dot on, when that dot is neither the first
  nor the last character of the name.
\<close>

fun rfind :: "char \<Rightarrow> string \<Rightarrow> nat option" where
  "rfind c [] = None"
| "rfind c (x # xs) =
     (case rfind c xs of
        Some i \<Rightarrow> Some (Suc i)
      | None \<Rightarrow> (if x = c then Some 0 else None))"

definition suffix :: "ppath \<Rightarrow> string" where
  "suffix p =
     (case rfind (CHR ''.'') (name p) of
        None \<Rightarrow> []
      | Some i \<Rightarrow> (if 0 < i \<and> i < length (name p) - 1 then drop i (name p) else []))"

fun join_with :: "string \<Rightarrow> string list \<Rightarrow> string" where
  "join_with sep [] = []"
| "join_with sep [x] = x"
| "join_with sep (x # y # ys) = x @ sep @ join_with sep (y # ys)"

definition path_str :: "ppath \<Rightarrow> string" where
  "path_str p = (if anchor p = [] \<and> names p = [] then ''.'' else anchor p @ join_with ''/'' (names p))"

text \<open>\<^verbatim>\<open>os.path.normpath\<close> on the names: \<^verbatim>\<open>..\<close> cancels the name before it.\<close>

fun normnames :: "bool \<Rightarrow> string list \<Rightarrow> string list \<Rightarrow> string list" where
  "normnames ab [] acc = acc"
| "normnames ab (c # cs) acc =
     (if c = [] \<or> c = ''.'' then normnames ab cs acc
      else if c \<noteq> ''..'' \<or> (\<not> ab \<and> acc = []) \<or> (acc \<noteq> [] \<and> last acc = ''..'')
        then normnames ab cs (acc @ [c])
      else if acc \<noteq> [] then normnames ab cs (butlast acc)
      else normnames ab cs acc)"

definition normpath :: "ppath \<Rightarrow> ppath" where
  "normpath p = \<lparr>anchor = anchor p, names = normnames (anchor p \<noteq> []) (names p) []\<rparr>"

fun common_prefix :: "string list \<Rightarrow> string list \<Rightarrow> nat" where
  "common_prefix (x # xs) (y # ys) = (if x = y then Suc (common_prefix xs ys) else 0)"
| "common_prefix xs ys = 0"

section \<open>The world of one run\<close>

text \<open>
  The state that a run reads and changes: the file system, the working directory of the
  process, the lines printed on standard output, and the number of times the clock
  has been read. What the run cannot decide is its environment: the clock
  (\<^verbatim>\<open>datetime.now()\<close> at its n-th reading) and the host shell, which runs a command line
  and gives the completed process and the file system it leaves.
\<close>

record datetime =
  year :: nat
  month :: nat
  day :: nat
  hour :: nat
  minute :: nat
  second :: nat

record completed =
  returncode :: int
  stdout :: string
  stderr :: string

text \<open>
  The messages are Russian text in the source; a message is kept as its template and the
  values put into it. \<open>UsageHeader\<close> and \<open>UsageSynopsis\<close> are the two lines of lines
  108 and 109, printed without a time stamp.
\<close>

datatype message =
    RunningCommand string "string option"
  | CommandExitCode int
  | CommandStderr string
  | CommandOutput string
  | TmpExists string
  | TmpDeleted string
  | TmpAbsent string
  | CloneStarts string string
  | CloneDone
  | SourceFound string
  | PruneStarts string string
  | DeletingDir string
  | DirDeleted string
  | DeletingFile string
  | FileDeleted string
  | PruneDone
  | ScanStarts string
  | FilesFound nat "string list"
  | ManifestStarts string
  | ManifestDone
  | ArchiveStarts string string string
  | ArchiveDone string string
  | TeardownStarts string
  | TeardownDone string
  | BuildError build_msg

datatype out_line = Logged string message | UsageHeader | UsageSynopsis

record world =
  root :: node
  cwd :: "string list"
  out :: "out_line list"
  ticks :: nat

record env =
  clock :: "nat \<Rightarrow> datetime"
  shell :: "string \<Rightarrow> string option \<Rightarrow> string list \<Rightarrow> node \<Rightarrow> completed \<times> node"

type_synonym 'a result = "(exn \<times> world) + ('a \<times> world)"

definition digit :: "nat \<Rightarrow> char" where
  "digit n = ''0123456789abcdef'' ! (n mod 16)"

definition digits2 :: "nat \<Rightarrow> string" where
  "digits2 n = [digit (n div 10 mod 10), digit (n mod 10)]"

definition digits4 :: "nat \<Rightarrow> string" where
  "digits4 n = digits2 (n div 100) @ digits2 n"

text \<open>
  \<^verbatim>\<open>strftime\<close> with the two formats of the source. \<^verbatim>\<open>datetime.now()\<close> gives a year of
  four digits.
\<close>

definition strftime_log :: "datetime \<Rightarrow> string" where
  "strftime_log d =
     digits4 (year d) @ ''-'' @ digits2 (month d) @ ''-'' @ digits2 (day d) @ '' '' @
     digits2 (hour d) @ '':'' @ digits2 (minute d) @ '':'' @ digits2 (second d)"

definition strftime_Ymd :: "datetime \<Rightarrow> string" where
  "strftime_Ymd d = digits4 (year d) @ digits2 (month d) @ digits2 (day d)"

text \<open>\<^verbatim>\<open>datetime.now()\<close>: the clock is read, and has been read once more.\<close>

definition now :: "env \<Rightarrow> world \<Rightarrow> datetime \<times> world" where
  "now E w = (clock E (ticks w), w\<lparr>ticks := Suc (ticks w)\<rparr>)"

text \<open>Lines 14 to 16.\<close>

definition log :: "env \<Rightarrow> message \<Rightarrow> world \<Rightarrow> world" where
  "log E m w =
     (case now E w of (d, w') \<Rightarrow> w'\<lparr>out := out w' @ [Logged (strftime_log d) m]\<rparr>)"

text \<open>\<^verbatim>\<open>str.strip()\<close>, on the white space of ASCII.\<close>

definition py_space :: "char \<Rightarrow> bool" where
  "py_space c = (of_char c \<in> {9::nat, 10, 11, 12, 13, 28, 29, 30, 31, 32})"

definition strip :: "string \<Rightarrow> string" where
  "strip s = rev (dropWhile py_space (rev (dropWhile py_space s)))"

text \<open>
  Lines 20 to 28. The source calls \<open>run_cmd\<close> with the default \<^verbatim>\<open>cwd=None\<close> only.
\<close>

definition run_cmd :: "env \<Rightarrow> string \<Rightarrow> string option \<Rightarrow> world \<Rightarrow> string result" where
  "run_cmd E cmd dir w =
     (let w1 = log E (RunningCommand cmd dir) w in
      case shell E cmd dir (cwd w1) (root w1) of
        (res, r') \<Rightarrow>
          (let w2 = w1\<lparr>root := r'\<rparr> in
           if returncode res \<noteq> 0
           then Inl (BuildScriptError (CommandFailed cmd),
                     log E (CommandStderr (strip (stderr res)))
                       (log E (CommandExitCode (returncode res)) w2))
           else Inr (strip (stdout res), log E (CommandOutput (strip (stdout res))) w2)))"

section \<open>The calls into the standard library\<close>

definition resolve :: "world \<Rightarrow> ppath \<Rightarrow> exn + string list" where
  "resolve w p = walk (root w) (names p) (if anchor p = [] then cwd w else [])"

definition stat :: "world \<Rightarrow> ppath \<Rightarrow> exn + node" where
  "stat w p =
     (case resolve w p of
        Inl e \<Rightarrow> Inl e
      | Inr q \<Rightarrow> (case lookup q (root w) of None \<Rightarrow> Inl FileNotFoundError | Some n \<Rightarrow> Inr n))"

text \<open>\<^verbatim>\<open>Path.exists\<close>, \<^verbatim>\<open>Path.is_dir\<close> and \<^verbatim>\<open>Path.is_file\<close> answer False on an error.\<close>

definition exists :: "world \<Rightarrow> ppath \<Rightarrow> bool" where
  "exists w p = (case stat w p of Inl e \<Rightarrow> False | Inr n \<Rightarrow> True)"

definition is_dir :: "world \<Rightarrow> ppath \<Rightarrow> bool" where
  "is_dir w p = (case stat w p of Inr (Dir es) \<Rightarrow> True | _ \<Rightarrow> False)"

definition is_file :: "world \<Rightarrow> ppath \<Rightarrow> bool" where
  "is_file w p = (case stat w p of Inr (File c) \<Rightarrow> True | _ \<Rightarrow> False)"

definition child :: "ppath \<Rightarrow> string \<Rightarrow> ppath" where
  "child p s = \<lparr>anchor = anchor p, names = names p @ [s]\<rparr>"

definition iterdir :: "world \<Rightarrow> ppath \<Rightarrow> exn + ppath list" where
  "iterdir w p =
     (case stat w p of
        Inl e \<Rightarrow> Inl e
      | Inr (File c) \<Rightarrow> Inl NotADirectoryError
      | Inr (Dir es) \<Rightarrow> Inr (map (\<lambda>e. child p (fst e)) es))"

text \<open>
  \<^verbatim>\<open>shutil.rmtree\<close> and \<^verbatim>\<open>Path.unlink\<close>. The source calls them on the temporary directory
  and on its entries; the root directory itself cannot be removed.
\<close>

definition rmtree :: "ppath \<Rightarrow> world \<Rightarrow> unit result" where
  "rmtree p w =
     (case resolve w p of
        Inl e \<Rightarrow> Inl (e, w)
      | Inr q \<Rightarrow>
          (case lookup q (root w) of
             Some (Dir es) \<Rightarrow>
               (if q = [] then Inl (OSError, w) else Inr ((), w\<lparr>root := remove q (root w)\<rparr>))
           | _ \<Rightarrow> Inl (NotADirectoryError, w)))"

definition unlink :: "ppath \<Rightarrow> world \<Rightarrow> unit result" where
  "unlink p w =
     (case resolve w p of
        Inl e \<Rightarrow> Inl (e, w)
      | Inr q \<Rightarrow>
          (case lookup q (root w) of
             Some (File c) \<Rightarrow> Inr ((), w\<lparr>root := remove q (root w)\<rparr>)
           | _ \<Rightarrow> Inl (IsADirectoryError, w)))"

text \<open>
  Opening a path for writing and writing the whole content: the directory of the path
  must exist, and the path must not be a directory. An existing file is replaced.
\<close>

definition write_file :: "ppath \<Rightarrow> content \<Rightarrow> world \<Rightarrow> unit result" where
  "write_file p c w =
     (if names p = [] \<or> last (names p) = ''..'' then Inl (IsADirectoryError, w)
      else
        (case resolve w \<lparr>anchor = anchor p, names = butlast (names p)\<rparr> of
           Inl e \<Rightarrow> Inl (e, w)
         | Inr q \<Rightarrow>
             (case lookup q (root w) of
                Some (Dir es) \<Rightarrow>
                  (case map_of es (last (names p)) of
                     Some (Dir es') \<Rightarrow> Inl (IsADirectoryError, w)
                   | _ \<Rightarrow> Inr ((), w\<lparr>root := put (q @ [last (names p)]) (File c) (root w)\<rparr>))
              | _ \<Rightarrow> Inl (NotADirectoryError, w))))"

subsection \<open>json.dump\<close>

text \<open>
  The values that the source dumps are strings, a list and a dictionary. The text is that
  of \<^verbatim>\<open>json.dump(..., indent=4, ensure_ascii=False)\<close>: a string is quoted, with the
  quote, the backslash and the control characters escaped and every other character
  as it is; the items of a non-empty list or dictionary stand on lines of their own,
  four spaces deeper.
\<close>

datatype json = JString string | JArray "json list" | JObject "(string \<times> json) list"

definition escape_char :: "char \<Rightarrow> string" where
  "escape_char c =
     (if c = CHR 0x22 then [CHR 0x5C, CHR 0x22]
      else if c = CHR 0x5C then [CHR 0x5C, CHR 0x5C]
      else if c = CHR 0x0A then [CHR 0x5C, CHR ''n'']
      else if c = CHR 0x0D then [CHR 0x5C, CHR ''r'']
      else if c = CHR 0x09 then [CHR 0x5C, CHR ''t'']
      else if c = CHR 0x08 then [CHR 0x5C, CHR ''b'']
      else if c = CHR 0x0C then [CHR 0x5C, CHR ''f'']
      else if (of_char c :: nat) < 32
        then [CHR 0x5C, CHR ''u'', CHR ''0'', CHR ''0'', digit (of_char c div 16), digit (of_char c)]
      else [c])"

definition encode_basestring :: "string \<Rightarrow> string" where
  "encode_basestring s = [CHR 0x22] @ concat (map escape_char s) @ [CHR 0x22]"

definition newline_indent :: "nat \<Rightarrow> string" where
  "newline_indent lvl = CHR 0x0A # replicate (4 * lvl) (CHR '' '')"

fun dumps :: "nat \<Rightarrow> json \<Rightarrow> string" where
  "dumps lvl (JString s) = encode_basestring s"
| "dumps lvl (JArray xs) =
     (if xs = [] then ''[]''
      else ''['' @ newline_indent (Suc lvl) @
           join_with ('','' @ newline_indent (Suc lvl)) (map (dumps (Suc lvl)) xs) @
           newline_indent lvl @ '']'')"
| "dumps lvl (JObject kvs) =
     (if kvs = [] then ''{}''
      else ''{'' @ newline_indent (Suc lvl) @
           join_with ('','' @ newline_indent (Suc lvl))
             (map (\<lambda>kv. encode_basestring (fst kv) @ '': '' @ dumps (Suc lvl) (snd kv)) kvs) @
           newline_indent lvl @ ''}'')"

definition json_dump :: "json \<Rightarrow> string" where
  "json_dump v = dumps 0 v"

subsection \<open>shutil.make_archive\<close>

text \<open>
  \<^verbatim>\<open>make_archive(base_name, 'zip', root_dir, base_dir)\<close>, as the source calls it: the
  base name has no directory part that could be missing. The archive is opened for
  writing at the base name with \<^verbatim>\<open>.zip\<close>, from the working directory. The first member
  is the base directory itself, under its normalised name; then \<^verbatim>\<open>os.walk\<close> goes down
  from it, and every directory adds its sub-directories in sorted order, then its
  files in the order of the listing, each under its path relative to the root
  directory. When the base directory is missing, the error leaves an empty archive.
\<close>

definition abs_names :: "world \<Rightarrow> ppath \<Rightarrow> string list" where
  "abs_names w p = normnames True ((if anchor p = [] then cwd w else []) @ names p) []"

definition relpath :: "string list \<Rightarrow> string list \<Rightarrow> string list" where
  "relpath pl sl =
     (let i = common_prefix sl pl in replicate (length sl - i) ''..'' @ drop i pl)"

definition is_Dir :: "node \<Rightarrow> bool" where
  "is_Dir n = (case n of Dir es \<Rightarrow> True | File c \<Rightarrow> False)"

definition data_of :: "node \<Rightarrow> content option" where
  "data_of n = (case n of Dir es \<Rightarrow> None | File c \<Rightarrow> Some c)"

fun walk_members :: "string list \<Rightarrow> string list \<Rightarrow> node \<Rightarrow> (string \<times> content option) list" where
  "walk_members start d (File c) = []"
| "walk_members start d (Dir es) =
     map (\<lambda>k. (join_with ''/'' (normnames False (relpath d start) [] @ [k]) @ ''/'', None))
       (sort (map fst (filter (\<lambda>e. is_Dir (snd e)) es))) @
     map (\<lambda>e. (join_with ''/'' (normnames False (relpath d start) [] @ [fst e]), data_of (snd e)))
       (filter (\<lambda>e. \<not> is_Dir (snd e)) es) @
     concat (map (\<lambda>e. walk_members start (d @ [fst e]) (snd e)) es)"

definition base_member :: "world \<Rightarrow> ppath \<Rightarrow> ppath \<Rightarrow> exn + (string \<times> content option) list" where
  "base_member w arc src =
     (if anchor arc = [] \<and> names arc = [] then Inr []
      else
        (case stat w src of
           Inl e \<Rightarrow> Inl e
         | Inr n \<Rightarrow>
             (if names arc = [] then Inl IndexError
              else Inr [(join_with ''/'' (names arc) @ (if is_Dir n then ''/'' else []), data_of n)])))"

definition make_archive :: "string \<Rightarrow> ppath \<Rightarrow> string \<Rightarrow> world \<Rightarrow> unit result" where
  "make_archive base_name root_dir base_dir w =
     (case stat w root_dir of
        Inl e \<Rightarrow> Inl (e, w)
      | Inr (File c) \<Rightarrow> Inl (NotADirectoryError, w)
      | Inr (Dir es0) \<Rightarrow>
          (case write_file (Path (base_name @ ''.zip'')) (Zip []) w of
             Inl x \<Rightarrow> Inl x
           | Inr (u, w1) \<Rightarrow>
               (let arc = normpath (Path base_dir);
                    src = normpath (joinpath root_dir (Path base_dir))
                in case base_member w1 arc src of
                     Inl e \<Rightarrow> Inl (e, w1)
                   | Inr ms \<Rightarrow>
                       write_file (Path (base_name @ ''.zip''))
                         (Zip (ms @
                            (case stat w1 src of
                               Inr n \<Rightarrow> walk_members (abs_names w1 root_dir) (abs_names w1 src) n
                             | Inl e \<Rightarrow> [])))
                         w1)))"

section \<open>The script\<close>

definition and_then :: "'a result \<Rightarrow> ('a \<Rightarrow> world \<Rightarrow> 'b result) \<Rightarrow> 'b result" where
  "and_then r f = (case r of Inl x \<Rightarrow> Inl x | Inr (a, w) \<Rightarrow> f a w)"

text \<open>Line 33.\<close>

definition tmp_dir :: ppath where
  "tmp_dir = Path ''tmp_repo''"

text \<open>Lines 36 to 41: the temporary directory of an earlier run is deleted.\<close>

definition reset :: "env \<Rightarrow> world \<Rightarrow> unit result" where
  "reset E w =
     (if exists w tmp_dir
      then and_then (rmtree tmp_dir (log E (TmpExists (path_str tmp_dir)) w))
             (\<lambda>u w'. Inr ((), log E (TmpDeleted (path_str tmp_dir)) w'))
      else Inr ((), log E (TmpAbsent (path_str tmp_dir)) w))"

text \<open>Lines 44 to 46: the repository is cloned into the temporary directory.\<close>

definition fetch :: "env \<Rightarrow> string \<Rightarrow> world \<Rightarrow> unit result" where
  "fetch E repo_url w =
     and_then
       (run_cmd E (''git clone '' @ repo_url @ '' '' @ path_str tmp_dir) None
          (log E (CloneStarts repo_url (path_str tmp_dir)) w))
       (\<lambda>output w'. Inr ((), log E CloneDone w'))"

text \<open>Lines 49 to 53: the source directory must exist and be a directory.\<close>

definition locate :: "env \<Rightarrow> string \<Rightarrow> world \<Rightarrow> ppath result" where
  "locate E source_rel_path w =
     (let source_dir = joinpath tmp_dir (Path source_rel_path) in
      if \<not> exists w source_dir \<or> \<not> is_dir w source_dir
      then Inl (BuildScriptError (SourceNotFound (path_str source_dir)), w)
      else Inr (source_dir, log E (SourceFound (path_str source_dir)) w))"

text \<open>
  Lines 56 to 67: every entry of the temporary directory that is not equal to the
  source directory is deleted.
\<close>

fun prune_loop :: "env \<Rightarrow> ppath \<Rightarrow> ppath list \<Rightarrow> world \<Rightarrow> unit result" where
  "prune_loop E source_dir [] w = Inr ((), w)"
| "prune_loop E source_dir (item # items) w =
     (if item \<noteq> source_dir then
        (if is_dir w item then
           and_then (rmtree item (log E (DeletingDir (path_str item)) w))
             (\<lambda>u w'. prune_loop E source_dir items (log E (DirDeleted (path_str item)) w'))
         else
           and_then (unlink item (log E (DeletingFile (path_str item)) w))
             (\<lambda>u w'. prune_loop E source_dir items (log E (FileDeleted (path_str item)) w')))
      else prune_loop E source_dir items w)"

definition prune :: "env \<Rightarrow> ppath \<Rightarrow> world \<Rightarrow> unit result" where
  "prune E source_dir w =
     (let w1 = log E (PruneStarts (path_str tmp_dir) (path_str source_dir)) w in
      case iterdir w1 tmp_dir of
        Inl e \<Rightarrow> Inl (e, w1)
      | Inr items \<Rightarrow>
          and_then (prune_loop E source_dir items w1) (\<lambda>u w'. Inr ((), log E PruneDone w')))"

text \<open>Line 71: the names of the regular files with one of the three suffixes.\<close>

definition files_list :: "world \<Rightarrow> ppath list \<Rightarrow> string list" where
  "files_list w fs =
     map name (filter (\<lambda>f. is_file w f \<and> suffix f \<in> set [''.py'', ''.js'', ''.sh'']) fs)"

text \<open>Lines 75 to 79.\<close>

definition version_data :: "string \<Rightarrow> string list \<Rightarrow> json" where
  "version_data ver fl =
     JObject [(''name'', JString ''hello world''),
              (''version'', JString ver),
              (''files'', JArray (map JString fl))]"

text \<open>Lines 70 to 86: the manifest is built and written into the source directory.\<close>

definition build_manifest :: "env \<Rightarrow> ppath \<Rightarrow> string \<Rightarrow> world \<Rightarrow> unit result" where
  "build_manifest E source_dir ver w =
     (let w1 = log E (ScanStarts (path_str source_dir)) w in
      case iterdir w1 source_dir of
        Inl e \<Rightarrow> Inl (e, w1)
      | Inr fs \<Rightarrow>
          (let fl = files_list w1 fs;
               w2 = log E (FilesFound (length fl) fl) w1;
               version_json_path = joinpath source_dir (Path ''version.json'');
               w3 = log E (ManifestStarts (path_str version_json_path)) w2
           in and_then (write_file version_json_path (Text (json_dump (version_data ver fl))) w3)
                (\<lambda>u w'. Inr ((), log E ManifestDone w'))))"

text \<open>
  Lines 89 to 97: the archive is named after the last part of the relative path and the
  date of the moment, and made from the temporary directory.
\<close>

definition archive :: "env \<Rightarrow> string \<Rightarrow> world \<Rightarrow> unit result" where
  "archive E source_rel_path w =
     (if parts (Path source_rel_path) = [] then Inl (IndexError, w)
      else
        (let last_dir_name = last (parts (Path source_rel_path)) in
         case now E w of
           (d, w1) \<Rightarrow>
             (let date_str = strftime_Ymd d;
                  archive_name = last_dir_name @ date_str @ ''.zip''
              in if \<not> (case lookup (cwd w1) (root w1) of Some (Dir es) \<Rightarrow> True | _ \<Rightarrow> False)
                 then Inl (FileNotFoundError, w1)
                 else
                   (let archive_path = joinpath \<lparr>anchor = ''/'', names = cwd w1\<rparr> (Path archive_name);
                        w2 = log E (ArchiveStarts archive_name source_rel_path (path_str tmp_dir)) w1
                    in and_then (make_archive (last_dir_name @ date_str) tmp_dir source_rel_path w2)
                         (\<lambda>u w'. Inr ((), log E (ArchiveDone archive_name (path_str archive_path)) w'))))))"

text \<open>Lines 100 to 102.\<close>

definition teardown :: "env \<Rightarrow> world \<Rightarrow> unit result" where
  "teardown E w =
     and_then (rmtree tmp_dir (log E (TeardownStarts (path_str tmp_dir)) w))
       (\<lambda>u w'. Inr ((), log E (TeardownDone (path_str tmp_dir)) w'))"

text \<open>Lines 31 to 102.\<close>

definition main :: "env \<Rightarrow> string \<Rightarrow> string \<Rightarrow> string \<Rightarrow> world \<Rightarrow> unit result" where
  "main E repo_url source_rel_path ver w =
     and_then (reset E w) (\<lambda>u w1.
     and_then (fetch E repo_url w1) (\<lambda>u w2.
     and_then (locate E source_rel_path w2) (\<lambda>source_dir w3.
     and_then (prune E source_dir w3) (\<lambda>u w4.
     and_then (build_manifest E source_dir ver w4) (\<lambda>u w5.
     and_then (archive E source_rel_path w5) (\<lambda>u w6.
     teardown E w6))))))"

text \<open>
  Lines 105 to 120. How the process ends: with an exit status, or with an exception that
  nothing catches (the interpreter prints the traceback and the status is 1).
\<close>

datatype ending = Exit nat | Uncaught exn

definition script :: "env \<Rightarrow> string list \<Rightarrow> world \<Rightarrow> ending \<times> world" where
  "script E argv w =
     (if length argv \<noteq> 4 then (Exit 0, w\<lparr>out := out w @ [UsageHeader, UsageSynopsis]\<rparr>)
      else
        (case main E (argv ! 1) (argv ! 2) (argv ! 3) w of
           Inr (u, w') \<Rightarrow> (Exit 0, w')
         | Inl (BuildScriptError m, w') \<Rightarrow> (Exit 0, log E (BuildError m) w')
         | Inl (e, w') \<Rightarrow> (Uncaught e, w')))"

text \<open>
  The exceptions that the clause \<^verbatim>\<open>except BuildScriptError\<close> of line 119 does not catch.
\<close>

definition os_fault :: "exn \<Rightarrow> bool" where
  "os_fault e = (case e of BuildScriptError m \<Rightarrow> False | _ \<Rightarrow> True)"

section \<open>An example run\<close>

text \<open>
  A repository with a directory \<^verbatim>\<open>src/app\<close> and a directory \<^verbatim>\<open>app\<close>, each holding
  \<^verbatim>\<open>run.py\<close> and \<^verbatim>\<open>notes.md\<close>; a host whose \<^verbatim>\<open>git clone\<close> of the one known address puts
  it into \<^verbatim>\<open>tmp_repo\<close> and fails on every other command; a clock on 3 November 2026; an
  empty working directory \<^verbatim>\<open>/work\<close>.
\<close>

definition example_app :: node where
  "example_app = Dir [(''run.py'', File (Text ''print(1)'')), (''notes.md'', File (Text ''notes''))]"

definition example_repo :: node where
  "example_repo =
     Dir [(''.git'', Dir [(''HEAD'', File (Text ''ref: refs/heads/main''))]),
          (''README.md'', File (Text ''readme'')),
          (''src'', Dir [(''app'', example_app)]),
          (''app'', example_app)]"

definition example_clock :: "nat \<Rightarrow> datetime" where
  "example_clock n =
     \<lparr>year = 2026, month = 11, day = 3, hour = 12, minute = n div 60 mod 60, second = n mod 60\<rparr>"

definition example_shell :: "string \<Rightarrow> string option \<Rightarrow> string list \<Rightarrow> node \<Rightarrow> completed \<times> node" where
  "example_shell cmd dir c r =
     (if cmd = ''git clone https://example/repo.git tmp_repo''
      then (\<lparr>returncode = 0, stdout = [], stderr = ''Cloning into tmp_repo''\<rparr>,
            put (c @ [''tmp_repo'']) example_repo r)
      else (\<lparr>returncode = 128, stdout = [], stderr = ''fatal: repository not found''\<rparr>, r))"

definition example_env :: env where
  "example_env = \<lparr>clock = example_clock, shell = example_shell\<rparr>"

definition example_world :: world where
  "example_world = \<lparr>root = Dir [(''work'', Dir [])], cwd = [''work''], out = [], ticks = 0\<rparr>"

definition example_cloned :: world where
  "example_cloned =
     \<lparr>root = Dir [(''work'', Dir [(''tmp_repo'', example_repo)])], cwd = [''work''],
      out = [], ticks = 0\<rparr>"





section \<open>Paths and logging\<close>

lemma root_log [simp]: "root (log E m w) = root w"
  by (simp add: log_def now_def)

lemma cwd_log [simp]: "cwd (log E m w) = cwd w"
  by (simp add: log_def now_def)


lemma Path_tmp_repo: "Path ''tmp_repo'' = \<lparr>anchor = [], names = [''tmp_repo'']\<rparr>"
  by (simp add: Path_def splitroot_def)


lemma suffix_version_json: "name f = ''version.json'' \<Longrightarrow> suffix f = ''.json''"
  by (simp add: suffix_def)

lemmas fs_defs =
  resolve_def stat_def exists_def is_dir_def is_file_def iterdir_def rmtree_def unlink_def
  write_file_def child_def and_then_def tmp_dir_def Path_def splitroot_def joinpath_def

section \<open>Lemmas about the file system\<close>

lemma lookup_append:
  "lookup (a @ b) r = (case lookup a r of None \<Rightarrow> None | Some n \<Rightarrow> lookup b n)"
  by (induction a arbitrary: r) (auto split: node.splits option.splits)

lemma map_of_map_entry:
  "map_of (map (\<lambda>e. if fst e = s then (s, f (snd e)) else e) es) k =
     (if k = s then map_option f (map_of es s) else map_of es k)"
  by (induction es) auto

lemma map_of_filter_other:
  "map_of (filter (\<lambda>e. fst e \<noteq> s) es) k = (if k = s then None else map_of es k)"
  by (induction es) auto



lemma lookup_remove_parent:
  "lookup q r = Some (Dir es) \<Longrightarrow>
     lookup q (remove (q @ [s]) r) = Some (Dir (filter (\<lambda>e. fst e \<noteq> s) es))"
proof (induction q arbitrary: r)
  case Nil
  then show ?case by simp
next
  case (Cons k q)
  then show ?case
    by (cases r) (auto simp: map_of_map_entry split: option.splits)
qed

lemma lookup_remove_other:
  "x \<noteq> y \<Longrightarrow> lookup (a @ y # t) (remove (a @ x # p) r) = lookup (a @ y # t) r"
proof (induction a arbitrary: r)
  case Nil
  then show ?case
    by (cases r) (auto simp: map_of_map_entry map_of_filter_other)
next
  case (Cons k a)
  then show ?case
    by (cases r) (auto simp: map_of_map_entry split: option.splits)
qed





lemma walk_plain:
  "''..'' \<notin> set ss \<Longrightarrow> lookup (cur @ ss) r \<noteq> None \<Longrightarrow> walk r ss cur = Inr (cur @ ss)"
proof (induction ss arbitrary: cur)
  case Nil
  then show ?case by simp
next
  case (Cons s ss)
  from Cons.prems have "lookup ((cur @ [s]) @ ss) r \<noteq> None" by simp
  moreover from Cons.prems have "''..'' \<notin> set ss" by simp
  ultimately have "walk r ss (cur @ [s]) = Inr ((cur @ [s]) @ ss)" by (rule Cons.IH[rotated])
  moreover from Cons.prems obtain es where "lookup cur r = Some (Dir es)" "map_of es s \<noteq> None"
    by (auto simp: lookup_append split: option.splits node.splits)
  moreover from Cons.prems have "s \<noteq> ''..''" by auto
  ultimately show ?case by simp
qed



lemma resolve_log [simp]: "resolve (log E m w) p = resolve w p"
  by (simp add: resolve_def)

lemma stat_log [simp]: "stat (log E m w) p = stat w p"
  by (simp add: stat_def split: sum.splits)

lemma exists_log [simp]: "exists (log E m w) p = exists w p"
  by (simp add: exists_def)

lemma is_dir_log [simp]: "is_dir (log E m w) p = is_dir w p"
  by (simp add: is_dir_def)

lemma is_file_log [simp]: "is_file (log E m w) p = is_file w p"
  by (simp add: is_file_def)


lemma stat_plain_Some:
  assumes "anchor p = []" and "''..'' \<notin> set (names p)"
    and "lookup (cwd w @ names p) (root w) = Some n"
  shows "resolve w p = Inr (cwd w @ names p)" and "stat w p = Inr n"
proof -
  from assms show "resolve w p = Inr (cwd w @ names p)"
    by (simp add: resolve_def walk_plain)
  with assms show "stat w p = Inr n"
    by (simp add: stat_def)
qed


lemma tmp_dir_simps [simp]: "anchor tmp_dir = []" "names tmp_dir = [''tmp_repo'']"
  by (simp_all add: tmp_dir_def Path_tmp_repo)

lemma rmtree_plain_dir:
  assumes "anchor p = []" and "''..'' \<notin> set (names p)" and "names p \<noteq> []"
    and "lookup (cwd w @ names p) (root w) = Some (Dir es)"
  shows "rmtree p w = Inr ((), w\<lparr>root := remove (cwd w @ names p) (root w)\<rparr>)"
  using assms stat_plain_Some(1) [OF assms(1,2,4)] by (simp add: rmtree_def)




lemma path_str_tmp_dir [simp]: "path_str tmp_dir = ''tmp_repo''"
  by (simp add: path_str_def)















lemma not_os_fault [simp]: "\<not> os_fault (BuildScriptError m)"
  by (simp add: os_fault_def)







lemma name_child [simp]: "name (child p k) = k"
  by (simp add: name_def child_def)































lemmas run_defs =
  main_def reset_def fetch_def run_cmd_def locate_def prune_def build_manifest_def archive_def
  teardown_def fs_defs Let_def path_str_def upsert_def example_env_def example_shell_def
  example_repo_def example_app_def

lemma example_reset:
  assumes "root w = Dir [(''work'', Dir [])]" and "cwd w = [''work'']"
  shows "\<exists>w'. reset \<lparr>clock = c, shell = example_shell\<rparr> w = Inr ((), w') \<and>
              root w' = Dir [(''work'', Dir [])] \<and> cwd w' = [''work''] \<and> ticks w' = Suc (ticks w)"
  using assms by (simp add: run_defs log_def now_def)

lemma example_fetch:
  assumes "root w = Dir [(''work'', Dir [])]" and "cwd w = [''work'']"
  shows "\<exists>w'. fetch \<lparr>clock = c, shell = example_shell\<rparr> ''https://example/repo.git'' w = Inr ((), w') \<and>
              root w' = Dir [(''work'', Dir [(''tmp_repo'', example_repo)])] \<and>
              cwd w' = [''work''] \<and> ticks w' = ticks w + 4"
  using assms by (simp add: run_defs log_def now_def)


lemma example_prune_nested:
  assumes "root w = Dir [(''work'', Dir [(''tmp_repo'', example_repo)])]" and "cwd w = [''work'']"
  shows "\<exists>w'. prune \<lparr>clock = c, shell = example_shell\<rparr>
                \<lparr>anchor = [], names = [''tmp_repo'', ''src'', ''app'']\<rparr> w = Inr ((), w') \<and>
              root w' = Dir [(''work'', Dir [(''tmp_repo'', Dir [])])] \<and>
              cwd w' = [''work'']"
  using assms by (simp add: run_defs)



lemma example_locate_root:
  assumes "Path rel = \<lparr>anchor = [], names = []\<rparr>"
    and "root w = Dir [(''work'', Dir [(''tmp_repo'', example_repo)])]" and "cwd w = [''work'']"
  shows "\<exists>w'. locate \<lparr>clock = c, shell = example_shell\<rparr> rel w =
                Inr (\<lparr>anchor = [], names = [''tmp_repo'']\<rparr>, w') \<and>
              root w' = Dir [(''work'', Dir [(''tmp_repo'', example_repo)])] \<and>
              cwd w' = [''work'']"
  using assms
  by (simp add: locate_def Let_def joinpath_def tmp_dir_def Path_tmp_repo exists_def is_dir_def
      stat_def resolve_def example_repo_def)

lemma example_prune_root:
  assumes "root w = Dir [(''work'', Dir [(''tmp_repo'', example_repo)])]" and "cwd w = [''work'']"
  shows "\<exists>w'. prune \<lparr>clock = c, shell = example_shell\<rparr> \<lparr>anchor = [], names = [''tmp_repo'']\<rparr> w =
                Inr ((), w') \<and>
              root w' = Dir [(''work'', Dir [(''tmp_repo'', Dir [])])] \<and> cwd w' = [''work'']"
  using assms by (simp add: run_defs)

lemma example_manifest_root:
  assumes "root w = Dir [(''work'', Dir [(''tmp_repo'', Dir [])])]" and "cwd w = [''work'']"
  shows "\<exists>w'. build_manifest \<lparr>clock = c, shell = example_shell\<rparr> \<lparr>anchor = [], names = [''tmp_repo'']\<rparr>
                ver w = Inr ((), w') \<and>
              root w' = Dir [(''work'', Dir [(''tmp_repo'',
                 Dir [(''version.json'', File (Text (json_dump (version_data ver []))))])])] \<and>
              cwd w' = [''work'']"
  using assms by (simp add: run_defs files_list_def)

lemma archive_no_parts:
  "Path rel = \<lparr>anchor = [], names = []\<rparr> \<Longrightarrow> archive E rel w = Inl (IndexError, w)"
  by (simp add: archive_def parts_def)

lemma example_main_root:
  assumes "Path rel = \<lparr>anchor = [], names = []\<rparr>"
  shows "\<exists>w'. main example_env ''https://example/repo.git'' rel ver example_world =
           Inl (IndexError, w') \<and>
         root w' = Dir [(''work'', Dir [(''tmp_repo'',
                 Dir [(''version.json'', File (Text (json_dump (version_data ver []))))])])]"
proof -
  let ?E = "\<lparr>clock = example_clock, shell = example_shell\<rparr>"
  have 0: "root example_world = Dir [(''work'', Dir [])]" "cwd example_world = [''work'']"
    by (simp_all add: example_world_def)
  from example_reset [OF 0] obtain w1 where
    1: "reset ?E example_world = Inr ((), w1)" "root w1 = Dir [(''work'', Dir [])]" "cwd w1 = [''work'']"
    by blast
  from example_fetch [OF 1(2,3)] obtain w2 where
    2: "fetch ?E ''https://example/repo.git'' w1 = Inr ((), w2)"
       "root w2 = Dir [(''work'', Dir [(''tmp_repo'', example_repo)])]" "cwd w2 = [''work'']"
    by blast
  from example_locate_root [OF assms 2(2,3)] obtain w3 where
    3: "locate ?E rel w2 = Inr (\<lparr>anchor = [], names = [''tmp_repo'']\<rparr>, w3)"
       "root w3 = Dir [(''work'', Dir [(''tmp_repo'', example_repo)])]" "cwd w3 = [''work'']"
    by blast
  from example_prune_root [OF 3(2,3)] obtain w4 where
    4: "prune ?E \<lparr>anchor = [], names = [''tmp_repo'']\<rparr> w3 = Inr ((), w4)"
       "root w4 = Dir [(''work'', Dir [(''tmp_repo'', Dir [])])]" "cwd w4 = [''work'']"
    by blast
  from example_manifest_root [OF 4(2,3)] obtain w5 where
    5: "build_manifest ?E \<lparr>anchor = [], names = [''tmp_repo'']\<rparr> ver w4 = Inr ((), w5)"
       "root w5 = Dir [(''work'', Dir [(''tmp_repo'',
                 Dir [(''version.json'', File (Text (json_dump (version_data ver []))))])])]"
    by blast
  from 1(1) 2(1) 3(1) 4(1) 5 archive_no_parts [OF assms, of ?E w5] show ?thesis
    by (simp add: main_def and_then_def example_env_def)
qed







subsection \<open>The text of a string is the string\<close>










subsection \<open>What the pruning keeps\<close>

text \<open>
  The loop of lines 57 to 66 keeps the entries of the temporary directory that are equal
  to the source directory, with all that is below them, and removes every other entry.
\<close>

lemma unlink_plain_file:
  assumes "anchor p = []" and "''..'' \<notin> set (names p)"
    and "lookup (cwd w @ names p) (root w) = Some (File c)"
  shows "unlink p w = Inr ((), w\<lparr>root := remove (cwd w @ names p) (root w)\<rparr>)"
  using assms stat_plain_Some(1) [OF assms(1,2,3)] by (simp add: unlink_def)

lemma is_dir_plain:
  assumes "anchor p = []" and "''..'' \<notin> set (names p)"
    and "lookup (cwd w @ names p) (root w) = Some n"
  shows "is_dir w p \<longleftrightarrow> is_Dir n"
  using stat_plain_Some(2) [OF assms] by (cases n) (simp_all add: is_dir_def is_Dir_def)

lemma prune_loop_result:
  assumes "lookup (cwd w @ [''tmp_repo'']) (root w) = Some (Dir es)"
    and "distinct ks" and "set ks \<subseteq> fst ` set es" and "''..'' \<notin> set ks"
  shows "\<exists>w'. prune_loop E sd (map (child tmp_dir) ks) w = Inr ((), w') \<and> cwd w' = cwd w \<and>
           lookup (cwd w @ [''tmp_repo'']) (root w') =
             Some (Dir (filter (\<lambda>e. fst e \<notin> set ks \<or> child tmp_dir (fst e) = sd) es)) \<and>
           (\<forall>k t. k \<notin> set ks \<or> child tmp_dir k = sd \<longrightarrow>
              lookup (cwd w @ ''tmp_repo'' # k # t) (root w') =
              lookup (cwd w @ ''tmp_repo'' # k # t) (root w))"
  using assms
proof (induction ks arbitrary: w es)
  case Nil
  then show ?case by simp
next
  case (Cons k ks)
  let ?T = "cwd w @ [''tmp_repo'']"
  let ?item = "child tmp_dir k"
  from Cons.prems have k: "k \<notin> set ks" "distinct ks" "set ks \<subseteq> fst ` set es" "''..'' \<notin> set ks"
    "k \<noteq> ''..''" "k \<in> fst ` set es"
    by auto
  show ?case
  proof (cases "?item = sd")
    case True
    from Cons.IH [OF Cons.prems(1) k(2,3,4)] obtain w' where
      w': "prune_loop E sd (map (child tmp_dir) ks) w = Inr ((), w')" "cwd w' = cwd w"
        "lookup ?T (root w') = Some (Dir (filter (\<lambda>e. fst e \<notin> set ks \<or> child tmp_dir (fst e) = sd) es))"
        "\<forall>k t. k \<notin> set ks \<or> child tmp_dir k = sd \<longrightarrow>
           lookup (cwd w @ ''tmp_repo'' # k # t) (root w') = lookup (cwd w @ ''tmp_repo'' # k # t) (root w)"
      by blast
    have "filter (\<lambda>e. fst e \<notin> set (k # ks) \<or> child tmp_dir (fst e) = sd) es =
          filter (\<lambda>e. fst e \<notin> set ks \<or> child tmp_dir (fst e) = sd) es"
      using True by (intro filter_cong) auto
    with w' True show ?thesis by auto
  next
    case False
    from k(6) obtain n where n: "map_of es k = Some n"
      by (cases "map_of es k") (auto simp: map_of_eq_None_iff)
    have l: "lookup (cwd w @ names ?item) (root w) = Some n"
      using lookup_append [of "cwd w @ [''tmp_repo'']" "[k]" "root w"] Cons.prems(1) n
      by (simp add: child_def)
    have pl: "anchor ?item = []" "''..'' \<notin> set (names ?item)" "names ?item \<noteq> []"
      using k(5) by (auto simp: child_def)
    define w1 where "w1 = (if is_dir w ?item
        then log E (DirDeleted (path_str ?item))
               ((log E (DeletingDir (path_str ?item)) w)\<lparr>root := remove (?T @ [k]) (root w)\<rparr>)
        else log E (FileDeleted (path_str ?item))
               ((log E (DeletingFile (path_str ?item)) w)\<lparr>root := remove (?T @ [k]) (root w)\<rparr>))"
    have step: "prune_loop E sd (map (child tmp_dir) (k # ks)) w =
                prune_loop E sd (map (child tmp_dir) ks) w1"
    proof (cases n)
      case (Dir des)
      with l have d: "is_dir w ?item" using is_dir_plain [OF pl(1,2) l] by (simp add: is_Dir_def)
      from l Dir have "lookup (cwd (log E (DeletingDir (path_str ?item)) w) @ names ?item)
                         (root (log E (DeletingDir (path_str ?item)) w)) = Some (Dir des)" by simp
      from rmtree_plain_dir [OF pl(1,2,3) this] d False show ?thesis
        by (simp add: and_then_def w1_def child_def)
    next
      case (File c)
      with l have d: "\<not> is_dir w ?item" using is_dir_plain [OF pl(1,2) l] by (simp add: is_Dir_def)
      from l File have "lookup (cwd (log E (DeletingFile (path_str ?item)) w) @ names ?item)
                         (root (log E (DeletingFile (path_str ?item)) w)) = Some (File c)" by simp
      from unlink_plain_file [OF pl(1,2) this] d False show ?thesis
        by (simp add: and_then_def w1_def child_def)
    qed
    have r1: "root w1 = remove (?T @ [k]) (root w)" and c1: "cwd w1 = cwd w"
      by (simp_all add: w1_def)
    have l1: "lookup (cwd w1 @ [''tmp_repo'']) (root w1) = Some (Dir (filter (\<lambda>e. fst e \<noteq> k) es))"
      using lookup_remove_parent [OF Cons.prems(1), of k] by (simp add: r1 c1)
    have sub: "set ks \<subseteq> fst ` set (filter (\<lambda>e. fst e \<noteq> k) es)"
      using k(1,3) by force
    from Cons.IH [OF l1 k(2) sub k(4)] obtain w' where
      w': "prune_loop E sd (map (child tmp_dir) ks) w1 = Inr ((), w')" "cwd w' = cwd w1"
        "lookup (cwd w1 @ [''tmp_repo'']) (root w') =
           Some (Dir (filter (\<lambda>e. fst e \<notin> set ks \<or> child tmp_dir (fst e) = sd)
                   (filter (\<lambda>e. fst e \<noteq> k) es)))"
        "\<forall>k t. k \<notin> set ks \<or> child tmp_dir k = sd \<longrightarrow>
           lookup (cwd w1 @ ''tmp_repo'' # k # t) (root w') = lookup (cwd w1 @ ''tmp_repo'' # k # t) (root w1)"
      by blast
    have f: "filter (\<lambda>e. fst e \<notin> set ks \<or> child tmp_dir (fst e) = sd) (filter (\<lambda>e. fst e \<noteq> k) es) =
             filter (\<lambda>e. fst e \<notin> set (k # ks) \<or> child tmp_dir (fst e) = sd) es"
      using False by (auto intro: filter_cong)
    have u: "lookup (cwd w @ ''tmp_repo'' # k' # t) (root w') =
             lookup (cwd w @ ''tmp_repo'' # k' # t) (root w)"
      if "k' \<notin> set (k # ks) \<or> child tmp_dir k' = sd" for k' t
    proof -
      from that False have ne: "k \<noteq> k'" by auto
      from that have "k' \<notin> set ks \<or> child tmp_dir k' = sd" by auto
      with w'(4) have "lookup (cwd w @ ''tmp_repo'' # k' # t) (root w') =
                       lookup (cwd w @ ''tmp_repo'' # k' # t) (root w1)"
        by (simp add: c1)
      also have "\<dots> = lookup (cwd w @ ''tmp_repo'' # k' # t) (root w)"
        using lookup_remove_other [OF ne, of ?T t "[]" "root w"] by (simp add: r1)
      finally show ?thesis .
    qed
    from w'(3) have lk: "lookup (cwd w @ [''tmp_repo'']) (root w') =
        Some (Dir (filter (\<lambda>e. fst e \<notin> set (k # ks) \<or> child tmp_dir (fst e) = sd) es))"
      unfolding c1 f .
    from w'(2) c1 have cw: "cwd w' = cwd w" by simp
    from step w'(1) have res: "prune_loop E sd (map (child tmp_dir) (k # ks)) w = Inr ((), w')"
      by (simp only:)
    from res cw lk u show ?thesis by blast
  qed
qed

lemma prune_result:
  assumes "lookup (cwd w @ [''tmp_repo'']) (root w) = Some (Dir es)"
    and "distinct (map fst es)" and "\<forall>e \<in> set es. valid_name (fst e)"
  shows "\<exists>w'. prune E sd w = Inr ((), w') \<and> cwd w' = cwd w \<and>
           lookup (cwd w @ [''tmp_repo'']) (root w') =
             Some (Dir (filter (\<lambda>e. child tmp_dir (fst e) = sd) es)) \<and>
           (\<forall>k t. child tmp_dir k = sd \<longrightarrow>
              lookup (cwd w @ ''tmp_repo'' # k # t) (root w') =
              lookup (cwd w @ ''tmp_repo'' # k # t) (root w))"
proof -
  let ?w1 = "log E (PruneStarts (path_str tmp_dir) (path_str sd)) w"
  have "stat w tmp_dir = Inr (Dir es)"
    using stat_plain_Some(2) [of tmp_dir w "Dir es"] assms(1) by simp
  then have it: "iterdir ?w1 tmp_dir = Inr (map (child tmp_dir) (map fst es))"
    by (simp add: iterdir_def o_def)
  have l1: "lookup (cwd ?w1 @ [''tmp_repo'']) (root ?w1) = Some (Dir es)"
    using assms(1) by simp
  have dd: "''..'' \<notin> set (map fst es)"
    using assms(3) by (auto simp: valid_name_def)
  from prune_loop_result [OF l1 assms(2) _ dd, of E sd] obtain w' where
    w': "prune_loop E sd (map (child tmp_dir) (map fst es)) ?w1 = Inr ((), w')" "cwd w' = cwd w"
      "lookup (cwd w @ [''tmp_repo'']) (root w') =
         Some (Dir (filter (\<lambda>e. fst e \<notin> set (map fst es) \<or> child tmp_dir (fst e) = sd) es))"
      "\<forall>k t. k \<notin> set (map fst es) \<or> child tmp_dir k = sd \<longrightarrow>
         lookup (cwd w @ ''tmp_repo'' # k # t) (root w') = lookup (cwd w @ ''tmp_repo'' # k # t) (root w)"
    by auto
  have f: "filter (\<lambda>e. fst e \<notin> set (map fst es) \<or> child tmp_dir (fst e) = sd) es =
           filter (\<lambda>e. child tmp_dir (fst e) = sd) es"
    by (intro filter_cong) auto
  have "prune E sd w = Inr ((), log E PruneDone w')"
    by (simp only: prune_def Let_def it w'(1) and_then_def sum.case prod.case)
  with w' f show ?thesis by simp
qed

lemma filter_name_distinct:
  "distinct (map fst es) \<Longrightarrow> map_of es k = Some n \<Longrightarrow> filter (\<lambda>e. fst e = k) es = [(k, n)]"
proof (induction es)
  case Nil
  then show ?case by simp
next
  case (Cons e es)
  show ?case
  proof (cases "fst e = k")
    case True
    with Cons.prems have "e = (k, n)" by (cases e) simp
    moreover from True Cons.prems have "k \<notin> fst ` set es" by simp
    then have "filter (\<lambda>e. fst e = k) es = []" by (force simp: filter_empty_conv)
    ultimately show ?thesis by simp
  next
    case False
    with Cons show ?thesis by auto
  qed
qed

lemma child_eq: "child p a = child p b \<longleftrightarrow> a = b"
  by (simp add: child_def)

lemma prune_keeps_immediate_child:
  assumes "lookup (cwd w @ [''tmp_repo'']) (root w) = Some (Dir es)"
    and "distinct (map fst es)" and "\<forall>e \<in> set es. valid_name (fst e)"
    and "map_of es k = Some n"
  shows "\<exists>w'. prune E (child tmp_dir k) w = Inr ((), w') \<and>
           lookup (cwd w @ [''tmp_repo'']) (root w') = Some (Dir [(k, n)]) \<and>
           (\<forall>t. lookup (cwd w @ ''tmp_repo'' # k # t) (root w') =
                lookup (cwd w @ ''tmp_repo'' # k # t) (root w))"
  using prune_result [OF assms(1,2,3), of E "child tmp_dir k"] filter_name_distinct [OF assms(2,4)]
  by (auto simp: child_eq)

lemma prune_removes_all_for_deeper_source:
  assumes "lookup (cwd w @ [''tmp_repo'']) (root w) = Some (Dir es)"
    and "distinct (map fst es)" and "\<forall>e \<in> set es. valid_name (fst e)"
    and "length (names sd) \<noteq> 2"
  shows "\<exists>w'. prune E sd w = Inr ((), w') \<and>
           lookup (cwd w @ [''tmp_repo'']) (root w') = Some (Dir [])"
proof -
  from assms(4) have "child tmp_dir k \<noteq> sd" for k
    by (auto simp: child_def)
  then have "filter (\<lambda>e. child tmp_dir (fst e) = sd) es = []"
    by (simp add: filter_empty_conv)
  with prune_result [OF assms(1,2,3), of E sd] show ?thesis by auto
qed

section \<open>The command line\<close>

text \<open>
  C7. A command line that does not have exactly three arguments after the name of the
  script (\<^verbatim>\<open>len(sys.argv) != 4\<close>) prints the two usage lines on standard output, leaves
  the file system as it is and ends with exit status 0.
\<close>

theorem usage_on_wrong_argument_count:
  "length argv \<noteq> 4 \<Longrightarrow>
     fst (script E argv w) = Exit 0 \<and>
     root (snd (script E argv w)) = root w \<and>
     out (snd (script E argv w)) = out w @ [UsageHeader, UsageSynopsis]"
  by (simp add: script_def)

theorem usage_on_wrong_argument_count_witness:
  "length [''Task2.py'', ''https://example/repo.git''] \<noteq> 4 \<and>
   fst (script example_env [''Task2.py'', ''https://example/repo.git''] example_world) = Exit 0 \<and>
   root (snd (script example_env [''Task2.py'', ''https://example/repo.git''] example_world)) =
     Dir [(''work'', Dir [])] \<and>
   out (snd (script example_env [''Task2.py'', ''https://example/repo.git''] example_world)) =
     [UsageHeader, UsageSynopsis]"
  using usage_on_wrong_argument_count
    [of "[''Task2.py'', ''https://example/repo.git'']" example_env example_world]
  by (simp add: example_world_def)

section \<open>The source directory\<close>



section \<open>The manifest\<close>



text \<open>
  C10. The list of files that goes into the manifest never has the name
  \<^verbatim>\<open>version.json\<close> in it, whatever the listing of the source directory is, also when a
  file of that name is there already: the suffix of that name is \<^verbatim>\<open>.json\<close>, which is
  none of the three. The list is made on line 71, from the listing taken before the
  manifest is written on lines 84 and 85.
\<close>

theorem manifest_never_lists_itself: "''version.json'' \<notin> set (files_list w fs)"
proof
  assume "''version.json'' \<in> set (files_list w fs)"
  then obtain f where "name f = ''version.json''"
    and "suffix f \<in> set [''.py'', ''.js'', ''.sh'']"
    by (auto simp: files_list_def)
  then show False
    by (simp add: suffix_version_json)
qed

section \<open>The workspace reset\<close>



section \<open>Errors of the build\<close>



section \<open>The archive\<close>




section \<open>A whole run\<close>



section \<open>Pruning\<close>

text \<open>
  C2. The comment of line 55 and the message of line 56 say that everything in the
  temporary directory is deleted except the source directory. Line 58 keeps an entry
  only when it is equal to the source directory; for a source directory that is deeper
  than one name, no entry is. In the example, \<^verbatim>\<open>tmp_repo/src/app\<close> is a directory before
  the pruning; the pruning returns without an error, and afterwards the temporary
  directory is empty and the source directory does not exist.
\<close>

theorem prune_deletes_nested_source:
  "is_dir example_cloned \<lparr>anchor = [], names = [''tmp_repo'', ''src'', ''app'']\<rparr> \<and>
   (\<exists>w'. prune example_env \<lparr>anchor = [], names = [''tmp_repo'', ''src'', ''app'']\<rparr>
            example_cloned = Inr ((), w') \<and>
          root w' = Dir [(''work'', Dir [(''tmp_repo'', Dir [])])] \<and>
          \<not> exists w' \<lparr>anchor = [], names = [''tmp_repo'', ''src'', ''app'']\<rparr>)"
proof -
  have a: "root example_cloned = Dir [(''work'', Dir [(''tmp_repo'', example_repo)])]"
    and b: "cwd example_cloned = [''work'']"
    by (simp_all add: example_cloned_def)
  have c: "is_dir example_cloned \<lparr>anchor = [], names = [''tmp_repo'', ''src'', ''app'']\<rparr>"
    by (simp add: fs_defs example_cloned_def example_repo_def example_app_def)
  from example_prune_nested [OF a b, of example_clock] obtain w' where
    d: "prune example_env \<lparr>anchor = [], names = [''tmp_repo'', ''src'', ''app'']\<rparr> example_cloned =
          Inr ((), w')"
       "root w' = Dir [(''work'', Dir [(''tmp_repo'', Dir [])])]" "cwd w' = [''work'']"
    by (auto simp: example_env_def)
  then have "\<not> exists w' \<lparr>anchor = [], names = [''tmp_repo'', ''src'', ''app'']\<rparr>"
    by (simp add: fs_defs)
  with c d show ?thesis by blast
qed

section \<open>A source path without a name\<close>

text \<open>
  C9. With the relative path \<^verbatim>\<open>.\<close>, and with the empty one, the run of the example gets
  past \<open>locate\<close> (the source directory is the temporary directory itself), the pruning
  deletes everything that was cloned, the manifest is written into the empty
  directory with no file in its list, and line 89 then raises \<open>IndexError\<close>, which the
  script does not catch: the process ends with the traceback, and the temporary
  directory stays, holding the manifest alone.
\<close>

theorem dot_path_ends_in_IndexError:
  "fst (script example_env [''Task2.py'', ''https://example/repo.git'', ''.'', ''1.2.3'']
          example_world) = Uncaught IndexError \<and>
   root (snd (script example_env [''Task2.py'', ''https://example/repo.git'', ''.'', ''1.2.3'']
          example_world)) =
     Dir [(''work'', Dir [(''tmp_repo'',
        Dir [(''version.json'', File (Text (json_dump (version_data ''1.2.3'' []))))])])] \<and>
   fst (script example_env [''Task2.py'', ''https://example/repo.git'', [], ''1.2.3'']
          example_world) = Uncaught IndexError \<and>
   root (snd (script example_env [''Task2.py'', ''https://example/repo.git'', [], ''1.2.3'']
          example_world)) =
     Dir [(''work'', Dir [(''tmp_repo'',
        Dir [(''version.json'', File (Text (json_dump (version_data ''1.2.3'' []))))])])]"
proof -
  have a: "Path ''.'' = \<lparr>anchor = [], names = []\<rparr>" and b: "Path [] = \<lparr>anchor = [], names = []\<rparr>"
    by (simp_all add: Path_def splitroot_def)
  from example_main_root [OF a, of "''1.2.3''"] example_main_root [OF b, of "''1.2.3''"]
  show ?thesis
    by (auto simp: script_def)
qed

end
